theory Spec2Isabelle
  imports Complex_Main
begin

section \<open>Exceptions\<close>

text \<open>
  The exceptions of the two modules are values. \<open>InvalidAlphabetContent\<close> and
  \<open>InvalidState\<close> are the classes of \<^verbatim>\<open>state_machine.py\<close>, \<open>InvalidDataException\<close> is the
  class of \<^verbatim>\<open>best_recall_threshold.py\<close>. The others are built-in exceptions: \<open>KeyError\<close>,
  \<open>IndexError\<close> and \<open>ValueError\<close> for a dictionary lookup, a list subscript and
  \<^verbatim>\<open>int(...)\<close>, \<open>ZeroDivisionError\<close> and \<open>OverflowError\<close> for the division of two integers.
\<close>

datatype error =
    InvalidAlphabetContent
  | InvalidState
  | InvalidDataException
  | KeyError
  | IndexError
  | ValueError
  | ZeroDivisionError
  | OverflowError

section \<open>The generic finite state machine\<close>

text \<open>
  What a concrete subclass of \<^verbatim>\<open>FiniteStateMachine(ABC, Generic[L, S])\<close> supplies: the class
  attribute \<^verbatim>\<open>transition_matrix\<close> (a dictionary from a state to the list of its successor
  states), the two methods the base class declares abstract, and the class attribute
  \<^verbatim>\<open>current_state\<close>. The field \<open>truthy\<close> is the truth value Python gives to an object of the
  state type \<open>S\<close> (what \<^verbatim>\<open>not initial_state\<close> tests); the value \<^verbatim>\<open>None\<close> is modelled by the
  option type and is always falsy.
\<close>

record ('l, 's) fsm_class =
  transition_matrix :: "'s \<rightharpoonup> 's list"
  letter_transition_index :: "'l \<Rightarrow> error + int"
  state_check :: "'s \<Rightarrow> error + 's"
  class_current_state :: "'s"
  truthy :: "'s \<Rightarrow> bool"

text \<open>
  Instances live in a store. Of an instance only the attribute \<^verbatim>\<open>current_state\<close> is ever
  written; \<open>None\<close> says that the instance has no attribute of its own yet, and then a read of
  \<^verbatim>\<open>self.current_state\<close> finds the class attribute. \<open>next_ref\<close> is the next unused reference.
\<close>

type_synonym ref = nat

record 's store =
  instance_current_state :: "ref \<Rightarrow> 's option"
  next_ref :: ref

definition new_instance :: "'s store \<Rightarrow> ref \<times> 's store" where
  "new_instance st =
     (next_ref st,
      st\<lparr>instance_current_state := (instance_current_state st)(next_ref st := None),
         next_ref := Suc (next_ref st)\<rparr>)"

definition get_current_state :: "('l, 's) fsm_class \<Rightarrow> 's store \<Rightarrow> ref \<Rightarrow> 's" where
  "get_current_state cls st self =
     (case instance_current_state st self of
        Some s \<Rightarrow> s
      | None \<Rightarrow> class_current_state cls)"

definition set_current_state :: "'s store \<Rightarrow> ref \<Rightarrow> 's \<Rightarrow> 's store" where
  "set_current_state st self s =
     st\<lparr>instance_current_state := (instance_current_state st)(self := Some s)\<rparr>"

text \<open>The bodies of the two abstract methods, reached through \<^verbatim>\<open>super()\<close>.\<close>

definition FiniteStateMachine_letter_transition_index :: "'l \<Rightarrow> error + int" where
  "FiniteStateMachine_letter_transition_index letter = Inl InvalidAlphabetContent"

definition FiniteStateMachine_state_check :: "'s \<Rightarrow> error + 's" where
  "FiniteStateMachine_state_check state = Inl InvalidState"

text \<open>
  A list subscript \<^verbatim>\<open>row[i]\<close> with a Python integer: a negative index counts from the end,
  and an index outside the list raises.
\<close>

definition subscript :: "'a list \<Rightarrow> int \<Rightarrow> error + 'a" where
  "subscript row i =
     (if 0 \<le> i \<and> i < int (length row) then Inr (row ! nat i)
      else if i < 0 \<and> - int (length row) \<le> i then Inr (row ! nat (int (length row) + i))
      else Inl IndexError)"

text \<open>
  \<^verbatim>\<open>self.transition_matrix[self.state_check(state)][self.letter_transition_index(letter)]\<close>:
  Python evaluates the state check, then the dictionary lookup, then the letter index, then
  the list subscript; the first exception wins.
\<close>

definition transition :: "('l, 's) fsm_class \<Rightarrow> 's \<Rightarrow> 'l \<Rightarrow> error + 's" where
  "transition cls state letter =
     (case state_check cls state of
        Inl e \<Rightarrow> Inl e
      | Inr checked \<Rightarrow>
          (case transition_matrix cls checked of
             None \<Rightarrow> Inl KeyError
           | Some row \<Rightarrow>
               (case letter_transition_index cls letter of
                  Inl e \<Rightarrow> Inl e
                | Inr i \<Rightarrow> subscript row i)))"

text \<open>\<^verbatim>\<open>functools.reduce(function, sequence, initial)\<close> for a function that may raise.\<close>

fun reduce :: "('s \<Rightarrow> 'l \<Rightarrow> error + 's) \<Rightarrow> 'l list \<Rightarrow> 's \<Rightarrow> error + 's" where
  "reduce f [] acc = Inr acc"
| "reduce f (x # xs) acc =
     (case f acc x of
        Inl e \<Rightarrow> Inl e
      | Inr acc' \<Rightarrow> reduce f xs acc')"

text \<open>
  \<^verbatim>\<open>sequence_transition(self, alphabet_sequence, initial_state=None)\<close>. The argument
  \<open>initial_state\<close> is \<open>None\<close> when the caller passes nothing (or \<^verbatim>\<open>None\<close>). The result is the
  returned state or the exception, with the store after the call.
\<close>

definition sequence_transition ::
    "('l, 's) fsm_class \<Rightarrow> 's store \<Rightarrow> ref \<Rightarrow> 'l list \<Rightarrow> 's option \<Rightarrow> (error + 's) \<times> 's store" where
  "sequence_transition cls st self alphabet_sequence initial_state =
     (let initial_state' =
            (case initial_state of
               None \<Rightarrow> get_current_state cls st self
             | Some s \<Rightarrow> if \<not> truthy cls s then get_current_state cls st self else s)
      in case reduce (transition cls) alphabet_sequence initial_state' of
           Inl e \<Rightarrow> (Inl e, st)
         | Inr final_state \<Rightarrow> (Inr final_state, set_current_state st self final_state))"

section \<open>The machine for the remainder of a division by three\<close>

definition ThreeFiniteStateMachine_transition_matrix :: "string \<rightharpoonup> string list" where
  "ThreeFiniteStateMachine_transition_matrix =
     [''S0'' \<mapsto> [''S0'', ''S1''],
      ''S1'' \<mapsto> [''S2'', ''S0''],
      ''S2'' \<mapsto> [''S1'', ''S2'']]"

definition ThreeFiniteStateMachine_letter_transition_index :: "int \<Rightarrow> error + int" where
  "ThreeFiniteStateMachine_letter_transition_index letter =
     (if letter \<in> set [0, 1] then Inr letter
      else FiniteStateMachine_letter_transition_index letter)"

definition ThreeFiniteStateMachine_state_check :: "string \<Rightarrow> error + string" where
  "ThreeFiniteStateMachine_state_check state =
     (if state \<in> set [''S0'', ''S1'', ''S2''] then Inr state
      else FiniteStateMachine_state_check state)"

definition ThreeFiniteStateMachine_initial_state :: string where
  "ThreeFiniteStateMachine_initial_state = ''S0''"

text \<open>The class: states are strings, and a string is truthy when it is not empty.\<close>

definition ThreeFiniteStateMachine :: "(int, string) fsm_class" where
  "ThreeFiniteStateMachine =
     \<lparr>transition_matrix = ThreeFiniteStateMachine_transition_matrix,
      letter_transition_index = ThreeFiniteStateMachine_letter_transition_index,
      state_check = ThreeFiniteStateMachine_state_check,
      class_current_state = ''S0'',
      truthy = (\<lambda>s. s \<noteq> [])\<rparr>"

text \<open>
  \<^verbatim>\<open>binary_divide_by_three(sequence)\<close>, run in a store: it creates an instance, runs the
  sequence on it and matches the final state.
\<close>

definition binary_divide_by_three :: "string store \<Rightarrow> int list \<Rightarrow> (error + int) \<times> string store" where
  "binary_divide_by_three st sequence =
     (if length sequence = 0 then (Inl InvalidAlphabetContent, st)
      else
        let (state_machine, st1) = new_instance st;
            (outcome, st2) =
               sequence_transition ThreeFiniteStateMachine st1 state_machine sequence None
        in case outcome of
             Inl e \<Rightarrow> (Inl e, st2)
           | Inr final_state \<Rightarrow>
               (if final_state = ''S0'' then (Inr 0, st2)
                else if final_state = ''S1'' then (Inr 1, st2)
                else if final_state = ''S2'' then (Inr 2, st2)
                else (Inl InvalidState, st2)))"

text \<open>
  \<^verbatim>\<open>int(digit)\<close> for a string of one character: the ten ASCII digits have a value, every
  other character of the 8-bit range raises \<^verbatim>\<open>ValueError\<close>.
\<close>

definition int_of_digit :: "char \<Rightarrow> error + int" where
  "int_of_digit digit =
     (if digit \<in> set ''0123456789''
      then Inr (int (of_char digit) - int (of_char CHR ''0''))
      else Inl ValueError)"

text \<open>\<^verbatim>\<open>[int(digit) for digit in digit_string]\<close>: the first character that fails ends the
  comprehension.\<close>

fun string_digit_list :: "string \<Rightarrow> error + int list" where
  "string_digit_list [] = Inr []"
| "string_digit_list (digit # digit_string) =
     (case int_of_digit digit of
        Inl e \<Rightarrow> Inl e
      | Inr d \<Rightarrow>
          (case string_digit_list digit_string of
             Inl e \<Rightarrow> Inl e
           | Inr ds \<Rightarrow> Inr (d # ds)))"

section \<open>The best recall threshold\<close>

subsection \<open>The division of two integers\<close>

text \<open>
  \<^verbatim>\<open>find_best_recall_threshold\<close> divides integers with \<^verbatim>\<open>/\<close>, which gives a float. A float
  that is a number is modelled by the rational number it stands for, so that the comparison
  of floats with each other and with integers is the order of the rationals.

  Python's \<^verbatim>\<open>a / b\<close> on two integers raises \<^verbatim>\<open>ZeroDivisionError\<close> when \<open>b\<close> is 0. Otherwise
  its result is the exact quotient rounded to the nearest double (53 significant bits,
  smallest exponent of the last place \<open>- 1074\<close>, a tie going to the even significand), and
  it raises \<^verbatim>\<open>OverflowError\<close> when that rounded value is beyond the largest double
  \<open>2 ^ 1024 - 2 ^ 971\<close>, which is when the size of the quotient reaches
  \<open>2 ^ 1024 - 2 ^ 970\<close>.
\<close>

text \<open>\<^verbatim>\<open>int.bit_length\<close> of an integer that is not negative.\<close>

function bit_length :: "int \<Rightarrow> int" where
  "bit_length n = (if n \<le> 0 then 0 else 1 + bit_length (n div 2))"
  by pat_completeness auto
termination
  by (relation "measure nat") auto

text \<open>The integer nearest to \<open>num / den\<close> (for \<open>den > 0\<close>), a tie going to the even one.\<close>

definition round_half_even :: "int \<Rightarrow> int \<Rightarrow> int" where
  "round_half_even num den =
     (let q = num div den; r = num mod den
      in if 2 * r < den then q
         else if 2 * r > den then q + 1
         else if even q then q else q + 1)"

text \<open>
  The double nearest to \<open>num / den\<close>, for \<open>num > 0\<close> and \<open>den > 0\<close>. With
  \<open>d = bit_length num - bit_length den\<close> the quotient lies between \<open>2 ^ (d - 1)\<close> and
  \<open>2 ^ (d + 1)\<close>; \<open>e\<close> is its binary exponent (\<open>2 ^ e \<le> num / den < 2 ^ (e + 1)\<close>) and
  \<open>2 ^ k\<close> the value of the last place of a double of that size.
\<close>

definition nearest_double :: "int \<Rightarrow> int \<Rightarrow> rat" where
  "nearest_double num den =
     (let d = bit_length num - bit_length den;
          e = (if (if d \<ge> 0 then num \<ge> den * 2 ^ nat d else num * 2 ^ nat (- d) \<ge> den)
               then d else d - 1);
          k = max e (- 1022) - 52
      in if k \<ge> 0 then of_int (round_half_even num (den * 2 ^ nat k) * 2 ^ nat k)
         else of_int (round_half_even (num * 2 ^ nat (- k)) den) / 2 ^ nat (- k))"

definition py_truediv :: "int \<Rightarrow> int \<Rightarrow> error + rat" where
  "py_truediv a b =
     (if b = 0 then Inl ZeroDivisionError
      else if a = 0 then Inr 0
      else if \<bar>a\<bar> \<ge> \<bar>b\<bar> * (2 ^ 1024 - 2 ^ 970) then Inl OverflowError
      else Inr (of_int (sgn a * sgn b) * nearest_double \<bar>a\<bar> \<bar>b\<bar>))"

subsection \<open>The function\<close>

text \<open>
  The argument \<^verbatim>\<open>recall_threshold\<close> is a float (or an integer) that the caller chooses: a
  number or one of the three floats that are no numbers. \<open>float_ge x y\<close> is \<^verbatim>\<open>x >= y\<close> for
  a number \<open>x\<close>.
\<close>

datatype pyfloat = Finite rat | PosInf | NegInf | NaN

fun float_ge :: "rat \<Rightarrow> pyfloat \<Rightarrow> bool" where
  "float_ge x (Finite y) = (x \<ge> y)"
| "float_ge x PosInf = False"
| "float_ge x NegInf = True"
| "float_ge x NaN = False"

text \<open>The value of \<^verbatim>\<open>recall = tp / (tp + fn) if (tp + fn) > 0 else 0\<close>.\<close>

definition recall_of :: "int \<Rightarrow> int \<Rightarrow> error + rat" where
  "recall_of tp fn = (if tp + fn > 0 then py_truediv tp (tp + fn) else Inr 0)"

text \<open>
  The loop \<^verbatim>\<open>for i, (tp, fn) in enumerate(zip(tp_list, fn_list))\<close>, on the pairs that are
  left, with the index \<open>i\<close> of the first of them and the two variables \<open>best_threshold\<close> and
  \<open>best_recall\<close>. An exception of a division ends the loop.
\<close>

fun scan_thresholds ::
    "pyfloat \<Rightarrow> int \<Rightarrow> (int \<times> int) list \<Rightarrow> rat option \<times> rat \<Rightarrow> error + rat option \<times> rat" where
  "scan_thresholds recall_threshold i [] (best_threshold, best_recall) =
     Inr (best_threshold, best_recall)"
| "scan_thresholds recall_threshold i ((tp, fn) # rest) (best_threshold, best_recall) =
     (case py_truediv (i + 1) 10 of
        Inl e \<Rightarrow> Inl e
      | Inr threshold \<Rightarrow>
          (case recall_of tp fn of
             Inl e \<Rightarrow> Inl e
           | Inr recall \<Rightarrow>
               if float_ge recall recall_threshold \<and> (best_recall < recall \<or> best_threshold = None)
               then scan_thresholds recall_threshold (i + 1) rest (Some threshold, recall)
               else scan_thresholds recall_threshold (i + 1) rest (best_threshold, best_recall)))"

text \<open>
  \<^verbatim>\<open>find_best_recall_threshold(tp_list, fn_list, recall_threshold)\<close>; the third argument is
  always passed here (its default is the float 0.9).
\<close>

definition find_best_recall_threshold :: "int list \<Rightarrow> int list \<Rightarrow> pyfloat \<Rightarrow> error + rat option" where
  "find_best_recall_threshold tp_list fn_list recall_threshold =
     (if length tp_list \<noteq> 9 \<or> length fn_list \<noteq> length tp_list then Inl InvalidDataException
      else case scan_thresholds recall_threshold 0 (zip tp_list fn_list) (None, - 1) of
             Inl e \<Rightarrow> Inl e
           | Inr (best_threshold, best_recall) \<Rightarrow> Inr best_threshold)"

section \<open>Auxiliary notions for the statements\<close>

text \<open>The number that a list of bits denotes, most significant bit first.\<close>

fun binary_value :: "int list \<Rightarrow> int" where
  "binary_value [] = 0"
| "binary_value (b # bs) = b * 2 ^ length bs + binary_value bs"

text \<open>The set \<open>Q\<close> of the module's header: the three states of the machine.\<close>

definition three_states :: "string set" where
  "three_states = {''S0'', ''S1'', ''S2''}"

text \<open>The state that stands for a remainder (the remainder table read backwards).\<close>

definition remainder_state :: "int \<Rightarrow> string" where
  "remainder_state r = (if r = 0 then ''S0'' else if r = 1 then ''S1'' else ''S2'')"

text \<open>A store in which no instance has been created.\<close>

definition empty_store :: "string store" where
  "empty_store = \<lparr>instance_current_state = (\<lambda>_. None), next_ref = 0\<rparr>"

text \<open>
  The store after \<^verbatim>\<open>m = ThreeFiniteStateMachine(); m.sequence_transition([1])\<close>: the
  instance \<open>0\<close> is in the state \<open>''S1''\<close>.
\<close>

definition store_after_1 :: "string store" where
  "store_after_1 =
     snd (sequence_transition ThreeFiniteStateMachine (snd (new_instance empty_store)) 0 [1] None)"

text \<open>
  The invariant of the loop, for the recalls \<open>seen\<close> so far: \<open>best_threshold\<close> is \<open>None\<close>
  when no recall seen reaches the target; otherwise it is the threshold of the first index
  whose recall is the highest among those that reach the target, and \<open>best_recall\<close> is that
  recall.
\<close>

definition scan_inv :: "pyfloat \<Rightarrow> rat list \<Rightarrow> rat option \<times> rat \<Rightarrow> bool" where
  "scan_inv recall_threshold seen best =
     (case fst best of
        None \<Rightarrow> (\<forall>j<length seen. \<not> float_ge (seen ! j) recall_threshold)
      | Some t \<Rightarrow>
          (\<exists>k<length seen.
              py_truediv (int k + 1) 10 = Inr t
            \<and> snd best = seen ! k
            \<and> float_ge (seen ! k) recall_threshold
            \<and> (\<forall>j<length seen. float_ge (seen ! j) recall_threshold \<longrightarrow> seen ! j \<le> seen ! k)
            \<and> (\<forall>j<k. float_ge (seen ! j) recall_threshold \<longrightarrow> seen ! j < seen ! k)))"

section \<open>The transition table\<close>

lemmas three_defs =
  ThreeFiniteStateMachine_def ThreeFiniteStateMachine_transition_matrix_def
  ThreeFiniteStateMachine_state_check_def ThreeFiniteStateMachine_letter_transition_index_def
  FiniteStateMachine_letter_transition_index_def FiniteStateMachine_state_check_def

lemma transition_S0:
  "transition ThreeFiniteStateMachine ''S0'' 0 = Inr ''S0''"
  "transition ThreeFiniteStateMachine ''S0'' 1 = Inr ''S1''"
  by (simp_all add: transition_def three_defs subscript_def)

lemma transition_S1:
  "transition ThreeFiniteStateMachine ''S1'' 0 = Inr ''S2''"
  "transition ThreeFiniteStateMachine ''S1'' 1 = Inr ''S0''"
  by (simp_all add: transition_def three_defs subscript_def)

lemma transition_S2:
  "transition ThreeFiniteStateMachine ''S2'' 0 = Inr ''S1''"
  "transition ThreeFiniteStateMachine ''S2'' 1 = Inr ''S2''"
  by (simp_all add: transition_def three_defs subscript_def)

lemma transition_bad_letter:
  assumes "s \<in> three_states" "x \<noteq> 0" "x \<noteq> 1"
  shows "transition ThreeFiniteStateMachine s x = Inl InvalidAlphabetContent"
  using assms by (auto simp add: three_states_def transition_def three_defs)

lemma transition_bad_state:
  assumes "s \<notin> three_states"
  shows "transition ThreeFiniteStateMachine s x = Inl InvalidState"
  using assms by (simp add: three_states_def transition_def three_defs)

lemma transition_remainder:
  assumes "r \<in> {0, 1, 2}" "b \<in> {0, 1}"
  shows "transition ThreeFiniteStateMachine (remainder_state r) b
           = Inr (remainder_state ((2 * r + b) mod 3))"
  using assms by (auto simp add: remainder_state_def transition_S0 transition_S1 transition_S2)

lemma transition_closed:
  assumes "transition ThreeFiniteStateMachine s x = Inr s'"
  shows "s \<in> three_states \<and> s' \<in> three_states \<and> x \<in> {0, 1}"
proof -
  have s: "s \<in> three_states"
    using assms transition_bad_state [of s x] by auto
  have x: "x \<in> {0, 1}"
    using assms s transition_bad_letter [of s x] by auto
  from s x assms show ?thesis
    by (auto simp add: three_states_def transition_S0 transition_S1 transition_S2)
qed

lemma transition_total:
  assumes "s \<in> three_states" "b \<in> {0, 1}"
  shows "\<exists>s'\<in>three_states. transition ThreeFiniteStateMachine s b = Inr s'"
  using assms
  by (auto simp add: three_states_def transition_S0 transition_S1 transition_S2)

section \<open>The fold over a sequence\<close>

text \<open>
  Started in the state of a remainder \<open>r\<close>, the fold over the bits \<open>bs\<close> ends in the state of
  the remainder of \<open>r * 2 ^ length bs + binary_value bs\<close>.
\<close>

lemma reduce_remainder:
  assumes "set bs \<subseteq> {0, 1}" "r \<in> {0, 1, 2}"
  shows "reduce (transition ThreeFiniteStateMachine) bs (remainder_state r)
           = Inr (remainder_state ((r * 2 ^ length bs + binary_value bs) mod 3))"
  using assms
proof (induction bs arbitrary: r)
  case Nil
  then show ?case by auto
next
  case (Cons b bs)
  have b: "b \<in> {0, 1}" and bs: "set bs \<subseteq> {0, 1}"
    using Cons.prems(1) by auto
  have next_r: "(2 * r + b) mod 3 \<in> {0, 1, 2}"
  proof -
    have "0 \<le> (2 * r + b) mod 3" "(2 * r + b) mod 3 < 3" by simp_all
    then show ?thesis by auto
  qed
  have "((2 * r + b) mod 3 * 2 ^ length bs + binary_value bs) mod 3
          = ((2 * r + b) * 2 ^ length bs + binary_value bs) mod 3"
    by (metis mod_add_left_eq mod_mult_left_eq)
  also have "(2 * r + b) * 2 ^ length bs + binary_value bs
          = r * 2 ^ length (b # bs) + binary_value (b # bs)"
    by (simp add: algebra_simps)
  finally show ?case
    using Cons.IH [OF bs next_r] transition_remainder [OF Cons.prems(2) b] by simp
qed

lemma reduce_closed:
  assumes "reduce (transition ThreeFiniteStateMachine) xs s = Inr s'" "s \<in> three_states"
  shows "s' \<in> three_states"
  using assms
proof (induction xs arbitrary: s)
  case Nil
  then show ?case by simp
next
  case (Cons x xs)
  then show ?case
    by (auto split: sum.splits dest: transition_closed)
qed

lemma reduce_bad_letter:
  assumes "s \<in> three_states" "\<not> set xs \<subseteq> {0, 1}"
  shows "reduce (transition ThreeFiniteStateMachine) xs s = Inl InvalidAlphabetContent"
  using assms
proof (induction xs arbitrary: s)
  case Nil
  then show ?case by simp
next
  case (Cons x xs)
  show ?case
  proof (cases "x \<in> {0, 1}")
    case True
    then have rest: "\<not> set xs \<subseteq> {0, 1}"
      using Cons.prems(2) by auto
    from True Cons.prems(1) obtain s' where
      step: "transition ThreeFiniteStateMachine s x = Inr s'" and "s' \<in> three_states"
      using transition_total by blast
    with Cons.IH rest show ?thesis by simp
  next
    case False
    then show ?thesis
      using transition_bad_letter [OF Cons.prems(1), of x] by simp
  qed
qed

section \<open>Instances in the store\<close>

lemma get_current_state_new_instance:
  "get_current_state cls (snd (new_instance st)) (fst (new_instance st)) = class_current_state cls"
  by (simp add: get_current_state_def new_instance_def)

lemma get_set_current_state:
  "get_current_state cls (set_current_state st self s) self = s"
  by (simp add: get_current_state_def set_current_state_def)

text \<open>
  What a call of \<open>binary_divide_by_three\<close> on a non-empty list returns, whatever the store:
  the new instance has no attribute of its own, so the fold starts in the class attribute
  \<open>''S0''\<close>.
\<close>

lemma binary_divide_by_three_result:
  assumes "sequence \<noteq> []"
  shows "fst (binary_divide_by_three st sequence)
           = (case reduce (transition ThreeFiniteStateMachine) sequence ''S0'' of
                Inl e \<Rightarrow> Inl e
              | Inr final_state \<Rightarrow>
                  (if final_state = ''S0'' then Inr 0
                   else if final_state = ''S1'' then Inr 1
                   else if final_state = ''S2'' then Inr 2
                   else Inl InvalidState))"
proof -
  have "get_current_state ThreeFiniteStateMachine (snd (new_instance st)) (fst (new_instance st))
          = ''S0''"
    by (simp add: get_current_state_new_instance) (simp add: ThreeFiniteStateMachine_def)
  with assms show ?thesis
    by (simp add: binary_divide_by_three_def sequence_transition_def split_beta Let_def
          split: sum.splits)
qed

lemma binary_divide_by_three_empty:
  "binary_divide_by_three st [] = (Inl InvalidAlphabetContent, st)"
  by (simp add: binary_divide_by_three_def)

text \<open>The instance that a call creates stays in the store, with the final state written.\<close>

lemma binary_divide_by_three_leaves_instance:
  "instance_current_state (snd (binary_divide_by_three empty_store [1])) 0 = Some ''S1''"
  by (simp add: binary_divide_by_three_def sequence_transition_def new_instance_def
        get_current_state_def set_current_state_def empty_store_def transition_S0
        ThreeFiniteStateMachine_def [THEN arg_cong, of class_current_state])

section \<open>Claims about the remainder function\<close>

text \<open>
  Claim C1. For every non-empty list of bits (each element 0 or 1), whatever the store the
  call runs in, \<open>binary_divide_by_three\<close> returns the value of the list, read as a binary
  number with its most significant bit first, modulo 3. In particular the lists
  \<open>[1,1,0,1]\<close>, \<open>[1,1,1,0]\<close> and \<open>[1,1,1,1]\<close> give 1, 2 and 0.
\<close>

theorem binary_divide_by_three_is_mod_3:
  "(sequence \<noteq> [] \<and> set sequence \<subseteq> {0, 1} \<longrightarrow>
      fst (binary_divide_by_three st sequence) = Inr (binary_value sequence mod 3))
   \<and> fst (binary_divide_by_three st [1, 1, 0, 1]) = Inr 1
   \<and> fst (binary_divide_by_three st [1, 1, 1, 0]) = Inr 2
   \<and> fst (binary_divide_by_three st [1, 1, 1, 1]) = Inr 0"
proof -
  have general: "fst (binary_divide_by_three st bs) = Inr (binary_value bs mod 3)"
    if "bs \<noteq> []" "set bs \<subseteq> {0, 1}" for bs
  proof -
    let ?r = "binary_value bs mod 3"
    have "reduce (transition ThreeFiniteStateMachine) bs (remainder_state 0)
            = Inr (remainder_state ((0 * 2 ^ length bs + binary_value bs) mod 3))"
      using that(2) by (intro reduce_remainder) simp_all
    then have run: "reduce (transition ThreeFiniteStateMachine) bs ''S0'' = Inr (remainder_state ?r)"
      by (simp add: remainder_state_def)
    have "0 \<le> ?r" "?r < 3" by simp_all
    then have "?r = 0 \<or> ?r = 1 \<or> ?r = 2" by arith
    then show ?thesis
      using binary_divide_by_three_result [OF that(1), of st] run
      by (auto simp add: remainder_state_def)
  qed
  have "fst (binary_divide_by_three st [1, 1, 0, 1]) = Inr (binary_value [1, 1, 0, 1] mod 3)"
    by (rule general) simp_all
  moreover
  have "fst (binary_divide_by_three st [1, 1, 1, 0]) = Inr (binary_value [1, 1, 1, 0] mod 3)"
    by (rule general) simp_all
  moreover
  have "fst (binary_divide_by_three st [1, 1, 1, 1]) = Inr (binary_value [1, 1, 1, 1] mod 3)"
    by (rule general) simp_all
  ultimately show ?thesis
    using general by simp
qed

text \<open>The list \<open>[0,1,1,1,1]\<close> of the test \<^verbatim>\<open>test_prefix_zero\<close>: 15 modulo 3 is 0.\<close>

theorem binary_divide_by_three_is_mod_3_witness:
  "[0, 1, 1, 1, 1] \<noteq> [] \<and> set [0, 1, 1, 1, 1] \<subseteq> {0, 1 :: int}
   \<and> binary_value [0, 1, 1, 1, 1] = 15
   \<and> fst (binary_divide_by_three empty_store [0, 1, 1, 1, 1]) = Inr 0"
  using binary_divide_by_three_is_mod_3 [of "[0, 1, 1, 1, 1]" empty_store] by simp

text \<open>
  Claim C3. On the empty list \<open>binary_divide_by_three\<close> raises \<open>InvalidAlphabetContent\<close>,
  before it creates an instance (the store is unchanged), and it returns no remainder.
\<close>

theorem binary_divide_by_three_rejects_empty:
  "binary_divide_by_three st [] = (Inl InvalidAlphabetContent, st)
   \<and> (\<forall>r. fst (binary_divide_by_three st []) \<noteq> Inr r)"
  by (simp add: binary_divide_by_three_empty)

text \<open>
  Claim C4. A list of integers that has an element \<open>x\<close> outside \<open>{0, 1}\<close> makes
  \<open>binary_divide_by_three\<close> raise \<open>InvalidAlphabetContent\<close>, wherever \<open>x\<close> stands: the
  elements \<open>before\<close> it and \<open>after\<close> it are arbitrary integers.
\<close>

theorem binary_divide_by_three_rejects_non_binary:
  assumes "x \<notin> {0, 1}"
  shows "fst (binary_divide_by_three st (before @ x # after)) = Inl InvalidAlphabetContent"
proof -
  have "''S0'' \<in> three_states"
    by (simp add: three_states_def)
  moreover have "\<not> set (before @ x # after) \<subseteq> {0, 1}"
    using assms by simp
  ultimately have "reduce (transition ThreeFiniteStateMachine) (before @ x # after) ''S0''
      = Inl InvalidAlphabetContent"
    by (rule reduce_bad_letter)
  then show ?thesis
    using binary_divide_by_three_result [of "before @ x # after" st] by simp
qed

text \<open>The letter 2 at the end (the list of \<^verbatim>\<open>test_invalid_non_binary_input\<close>), at the front and
  in the middle.\<close>

theorem binary_divide_by_three_rejects_non_binary_witness:
  "(2 :: int) \<notin> {0, 1}
   \<and> fst (binary_divide_by_three empty_store [1, 2]) = Inl InvalidAlphabetContent
   \<and> fst (binary_divide_by_three empty_store [2, 1, 0]) = Inl InvalidAlphabetContent
   \<and> fst (binary_divide_by_three empty_store [1, 2, 7, 0]) = Inl InvalidAlphabetContent"
  using binary_divide_by_three_rejects_non_binary [of 2 empty_store "[1]" "[]"]
    binary_divide_by_three_rejects_non_binary [of 2 empty_store "[]" "[1, 0]"]
    binary_divide_by_three_rejects_non_binary [of 2 empty_store "[1]" "[7, 0]"]
  by simp

text \<open>
  Claim C6. Every call of \<open>binary_divide_by_three\<close> works on an instance of its own, so what
  it returns (a remainder or an exception) does not depend on the store it runs in: a call
  on \<open>second\<close> made after a call on \<open>first\<close> returns what a call on \<open>second\<close> alone
  returns, and two calls on the same list return the same, in whatever stores they run.
\<close>

theorem binary_divide_by_three_independent_calls:
  "fst (binary_divide_by_three (snd (binary_divide_by_three st first)) second)
     = fst (binary_divide_by_three st second)
   \<and> fst (binary_divide_by_three st' sequence) = fst (binary_divide_by_three st sequence)"
proof -
  have "fst (binary_divide_by_three a xs) = fst (binary_divide_by_three b xs)" for a b xs
    by (cases "xs = []")
      (simp_all add: binary_divide_by_three_empty binary_divide_by_three_result)
  then show ?thesis by blast
qed

text \<open>
  Claim C7. In the machine for three, a transition from a state of \<open>Q = {S0, S1, S2}\<close> on a
  letter of \<open>{0, 1}\<close> gives a state of \<open>Q\<close>. Hence the run that \<open>binary_divide_by_three\<close>
  makes on its new instance ends, for a non-empty list of bits, in a state of \<open>Q\<close>; every
  state that this run can return, for any list, is in \<open>Q\<close>; and the last branch of the match
  on the final state is never taken: \<open>binary_divide_by_three\<close> never raises \<open>InvalidState\<close>.
\<close>

theorem three_states_closed:
  "(\<forall>s\<in>three_states. \<forall>b\<in>{0, 1}. \<exists>s'\<in>three_states.
       transition ThreeFiniteStateMachine s b = Inr s')
   \<and> (sequence \<noteq> [] \<and> set sequence \<subseteq> {0, 1} \<longrightarrow>
        (\<exists>final_state\<in>three_states.
           fst (sequence_transition ThreeFiniteStateMachine (snd (new_instance st))
                  (fst (new_instance st)) sequence None) = Inr final_state))
   \<and> (\<forall>final_state.
        fst (sequence_transition ThreeFiniteStateMachine (snd (new_instance st))
               (fst (new_instance st)) sequence None) = Inr final_state
        \<longrightarrow> final_state \<in> three_states)
   \<and> fst (binary_divide_by_three st sequence) \<noteq> Inl InvalidState"
proof -
  let ?run = "fst (sequence_transition ThreeFiniteStateMachine (snd (new_instance st))
                (fst (new_instance st)) sequence None)"
  have start: "''S0'' \<in> three_states"
    by (simp add: three_states_def)
  have run: "?run = reduce (transition ThreeFiniteStateMachine) sequence ''S0''"
    by (simp add: sequence_transition_def get_current_state_new_instance split: sum.splits)
      (simp add: ThreeFiniteStateMachine_def)
  have table: "\<forall>s\<in>three_states. \<forall>b\<in>{0, 1}. \<exists>s'\<in>three_states.
       transition ThreeFiniteStateMachine s b = Inr s'"
    using transition_total by blast
  have closed: "final_state \<in> three_states" if "?run = Inr final_state" for final_state
    using that run reduce_closed [OF _ start] by simp
  have bits: "\<exists>final_state\<in>three_states. ?run = Inr final_state"
    if "set sequence \<subseteq> {0, 1}"
  proof -
    have "reduce (transition ThreeFiniteStateMachine) sequence (remainder_state 0)
            = Inr (remainder_state ((0 * 2 ^ length sequence + binary_value sequence) mod 3))"
      using that by (intro reduce_remainder) simp_all
    then obtain f where f: "?run = Inr f"
      using run by (simp add: remainder_state_def)
    with closed show ?thesis by blast
  qed
  have unreachable: "fst (binary_divide_by_three st sequence) \<noteq> Inl InvalidState"
  proof (cases "sequence = []")
    case True
    then show ?thesis by (simp add: binary_divide_by_three_empty)
  next
    case nonempty: False
    show ?thesis
    proof (cases "set sequence \<subseteq> {0, 1}")
      case True
      from bits [OF True] obtain f where "f \<in> three_states" "?run = Inr f" by blast
      then show ?thesis
        using binary_divide_by_three_result [OF nonempty, of st] run
        by (auto simp add: three_states_def)
    next
      case False
      then show ?thesis
        using binary_divide_by_three_result [OF nonempty, of st] reduce_bad_letter [OF start False]
        by simp
    qed
  qed
  from table bits closed unreachable show ?thesis by blast
qed

text \<open>The transition from \<open>S1\<close> on 1, and the run on \<open>[1,1,0]\<close>.\<close>

theorem three_states_closed_witness:
  "''S1'' \<in> three_states \<and> (1 :: int) \<in> {0, 1}
   \<and> transition ThreeFiniteStateMachine ''S1'' 1 = Inr ''S0''
   \<and> [1, 1, 0] \<noteq> [] \<and> set [1, 1, 0] \<subseteq> {0, 1 :: int}
   \<and> fst (sequence_transition ThreeFiniteStateMachine (snd (new_instance empty_store))
             (fst (new_instance empty_store)) [1, 1, 0] None) = Inr ''S0''
   \<and> ''S0'' \<in> three_states
   \<and> fst (binary_divide_by_three empty_store [1, 1, 0]) \<noteq> Inl InvalidState"
  using three_states_closed [of "[1, 1, 0]" empty_store]
  by (simp add: three_states_def transition_S0 transition_S1 transition_S2
        sequence_transition_def get_current_state_new_instance
        ThreeFiniteStateMachine_def [THEN arg_cong, of class_current_state])

section \<open>Claims about the generic machine\<close>

text \<open>
  The start of the fold. Without a supplied state, and with a supplied state that is falsy,
  the fold starts in the current state of the instance; with a supplied truthy state it
  starts there. When the fold succeeds, its result is written to the instance.
\<close>

lemma sequence_transition_start:
  assumes "initial_state = None \<or> (\<exists>s. initial_state = Some s \<and> \<not> truthy cls s)"
  shows "sequence_transition cls st self alphabet_sequence initial_state
           = (case reduce (transition cls) alphabet_sequence (get_current_state cls st self) of
                Inl e \<Rightarrow> (Inl e, st)
              | Inr final_state \<Rightarrow> (Inr final_state, set_current_state st self final_state))"
  using assms by (auto simp add: sequence_transition_def)

lemma sequence_transition_supplied:
  assumes "truthy cls s"
  shows "sequence_transition cls st self alphabet_sequence (Some s)
           = (case reduce (transition cls) alphabet_sequence s of
                Inl e \<Rightarrow> (Inl e, st)
              | Inr final_state \<Rightarrow> (Inr final_state, set_current_state st self final_state))"
  using assms by (simp add: sequence_transition_def)

lemma sequence_transition_commits:
  assumes "fst (sequence_transition cls st self alphabet_sequence initial_state) = Inr final_state"
  shows "get_current_state cls (snd (sequence_transition cls st self alphabet_sequence initial_state)) self
           = final_state"
  using assms
  by (auto simp add: sequence_transition_def Let_def get_set_current_state split: sum.splits)

lemma store_after_1_eq:
  "store_after_1 = \<lparr>instance_current_state = (\<lambda>_. None)(0 := Some ''S1''), next_ref = 1\<rparr>"
  by (simp add: store_after_1_def sequence_transition_def new_instance_def empty_store_def
      get_current_state_def set_current_state_def transition_S0
        ThreeFiniteStateMachine_def [THEN arg_cong, of class_current_state])

text \<open>
  Claim C2. When \<open>sequence_transition\<close> fails, with whatever exception, on whatever list and
  with or without a supplied starting state, the store after the call is the store before
  it; so the current state of the instance is what it was before the call.
\<close>

theorem sequence_transition_failure_keeps_state:
  assumes "fst (sequence_transition cls st self alphabet_sequence initial_state) = Inl e"
  shows "snd (sequence_transition cls st self alphabet_sequence initial_state) = st
         \<and> get_current_state cls
              (snd (sequence_transition cls st self alphabet_sequence initial_state)) self
             = get_current_state cls st self"
proof -
  have "snd (sequence_transition cls st self alphabet_sequence initial_state) = st"
    using assms by (auto simp add: sequence_transition_def Let_def split: sum.splits)
  then show ?thesis by simp
qed

text \<open>
  An instance in the state \<open>S1\<close> runs \<open>[0, 2]\<close>: the letter 0 leads to \<open>S2\<close>, the letter 2
  raises, and the instance is still in \<open>S1\<close>.
\<close>

theorem sequence_transition_failure_keeps_state_witness:
  "get_current_state ThreeFiniteStateMachine store_after_1 0 = ''S1''
   \<and> fst (sequence_transition ThreeFiniteStateMachine store_after_1 0 [0, 2] None)
       = Inl InvalidAlphabetContent
   \<and> snd (sequence_transition ThreeFiniteStateMachine store_after_1 0 [0, 2] None) = store_after_1
   \<and> get_current_state ThreeFiniteStateMachine
        (snd (sequence_transition ThreeFiniteStateMachine store_after_1 0 [0, 2] None)) 0 = ''S1''"
proof -
  have current: "get_current_state ThreeFiniteStateMachine store_after_1 0 = ''S1''"
    by (simp add: store_after_1_eq get_current_state_def)
  have fails: "fst (sequence_transition ThreeFiniteStateMachine store_after_1 0 [0, 2] None)
       = Inl InvalidAlphabetContent"
    by (simp add: sequence_transition_def current transition_S1)
       (simp add: transition_def three_defs)
  from sequence_transition_failure_keeps_state [OF fails] current fails show ?thesis
    by simp
qed

text \<open>
  Claim C5 says that \<open>sequence_transition\<close> folds from every supplied starting state. The
  code tests \<^verbatim>\<open>not initial_state\<close>, so a supplied state that is falsy counts as not supplied:
  on an instance in the state \<open>S1\<close>, the call with the list \<open>[1]\<close> and the empty string as
  starting state returns \<open>S0\<close> (the fold from \<open>S1\<close>), where the fold from the supplied state
  raises \<open>InvalidState\<close>; and with the empty list it returns \<open>S1\<close>, where the fold from the
  supplied state is the empty string.
\<close>

theorem sequence_transition_falsy_initial_state:
  "\<not> truthy ThreeFiniteStateMachine []
   \<and> reduce (transition ThreeFiniteStateMachine) [1] [] = Inl InvalidState
   \<and> fst (sequence_transition ThreeFiniteStateMachine store_after_1 0 [1] (Some []))
       = Inr ''S0''
   \<and> reduce (transition ThreeFiniteStateMachine) [] [] = Inr []
   \<and> fst (sequence_transition ThreeFiniteStateMachine store_after_1 0 [] (Some []))
       = Inr ''S1''"
proof -
  have current: "get_current_state ThreeFiniteStateMachine store_after_1 0 = ''S1''"
    by (simp add: store_after_1_eq get_current_state_def)
  have falsy: "\<not> truthy ThreeFiniteStateMachine []"
    by (simp add: ThreeFiniteStateMachine_def)
  have "reduce (transition ThreeFiniteStateMachine) [1] [] = Inl InvalidState"
    by (simp add: transition_bad_state three_states_def)
  with falsy current show ?thesis
    by (simp add: sequence_transition_def Let_def transition_S1)
qed

text \<open>
  Claim C10. On the empty list \<open>sequence_transition\<close> raises nothing, whatever the starting
  state argument: it returns a state and writes it to the instance. With a supplied truthy
  state \<open>s\<close>, in \<open>Q\<close> or not, it returns \<open>s\<close> and the current state of the instance becomes
  \<open>s\<close>. The empty list is refused by \<open>binary_divide_by_three\<close> only, before any machine runs.
\<close>

theorem sequence_transition_empty_sequence:
  "(\<exists>s'. sequence_transition cls st self [] initial_state
            = (Inr s', set_current_state st self s'))
   \<and> (truthy cls s \<longrightarrow>
        sequence_transition cls st self [] (Some s) = (Inr s, set_current_state st self s)
        \<and> get_current_state cls (snd (sequence_transition cls st self [] (Some s))) self = s)
   \<and> binary_divide_by_three st' [] = (Inl InvalidAlphabetContent, st')"
  by (simp add: sequence_transition_def Let_def get_set_current_state
        binary_divide_by_three_empty)

text \<open>The string \<open>S7\<close> is truthy and is no state of the machine for three.\<close>

theorem sequence_transition_empty_sequence_witness:
  "truthy ThreeFiniteStateMachine ''S7'' \<and> ''S7'' \<notin> three_states
   \<and> sequence_transition ThreeFiniteStateMachine empty_store 0 [] (Some ''S7'')
       = (Inr ''S7'', set_current_state empty_store 0 ''S7'')
   \<and> get_current_state ThreeFiniteStateMachine
        (snd (sequence_transition ThreeFiniteStateMachine empty_store 0 [] (Some ''S7''))) 0 = ''S7''
   \<and> binary_divide_by_three empty_store [] = (Inl InvalidAlphabetContent, empty_store)"
proof -
  have t: "truthy ThreeFiniteStateMachine ''S7''"
    by (simp add: ThreeFiniteStateMachine_def)
  from sequence_transition_empty_sequence
         [of ThreeFiniteStateMachine empty_store 0 None "''S7''" empty_store] t
  show ?thesis by (simp add: three_states_def get_set_current_state)
qed

section \<open>Claims about the digits of a string\<close>

lemma int_of_digit_digit:
  assumes "digit \<in> set ''0123456789''"
  shows "int_of_digit digit = Inr (int (of_char digit) - 48)"
  using assms by (simp add: int_of_digit_def)

lemma string_digit_list_digits:
  assumes "set digit_string \<subseteq> set ''0123456789''"
  shows "string_digit_list digit_string = Inr (map (\<lambda>digit. int (of_char digit) - 48) digit_string)"
  using assms
proof (induction digit_string)
  case Nil
  then show ?case by simp
next
  case (Cons digit digit_string)
  then have "digit \<in> set ''0123456789''" "set digit_string \<subseteq> set ''0123456789''"
    by simp_all
  with Cons.IH show ?case
    by (simp only: string_digit_list.simps int_of_digit_digit sum.case list.map)
qed

text \<open>
  Claim C8. On a string of decimal digits \<open>string_digit_list\<close> returns a list with one
  integer for each character, the value of the digit, whether the digit is binary or not.
  The string \<open>1101\<close> gives \<open>[1,1,0,1]\<close>, and \<open>binary_divide_by_three\<close> of that list is 1.
\<close>

theorem string_digit_list_entries:
  "(set digit_string \<subseteq> set ''0123456789'' \<longrightarrow>
      (\<exists>digits. string_digit_list digit_string = Inr digits
         \<and> length digits = length digit_string
         \<and> digits = map (\<lambda>digit. int (of_char digit) - 48) digit_string))
   \<and> string_digit_list ''1101'' = Inr [1, 1, 0, 1]
   \<and> (case string_digit_list ''1101'' of
         Inl e \<Rightarrow> Inl e
       | Inr digits \<Rightarrow> fst (binary_divide_by_three st digits)) = Inr 1"
proof -
  have "string_digit_list ''1101'' = Inr [1, 1, 0, 1]"
    by (simp add: int_of_digit_def)
  moreover have "fst (binary_divide_by_three st [1, 1, 0, 1]) = Inr 1"
    by (simp add: binary_divide_by_three_result transition_S0 transition_S1 transition_S2)
  ultimately show ?thesis
    using string_digit_list_digits [of digit_string] by simp
qed

text \<open>The digits 2, 9 and 7 pass: no test for a binary digit is made here.\<close>

theorem string_digit_list_entries_witness:
  "set ''2907'' \<subseteq> set ''0123456789''
   \<and> string_digit_list ''2907'' = Inr [2, 9, 0, 7]
   \<and> length [2, 9, 0, 7 :: int] = length ''2907''"
  using string_digit_list_entries [of "''2907''" empty_store] by simp

section \<open>Claims about the best recall threshold\<close>

text \<open>
  Some quotients: the floats \<^verbatim>\<open>0.1\<close> and \<^verbatim>\<open>1/3\<close>, a quotient just below 1 that rounds to
  1, two ties at 54 bits, the first quotient that overflows, and a division by 0.
\<close>

lemma py_truediv_examples:
  "py_truediv 1 10 = Inr (3602879701896397 / 36028797018963968)"
  "py_truediv 1 3 = Inr (6004799503160661 / 18014398509481984)"
  "py_truediv (10 ^ 17) (10 ^ 17 + 1) = Inr 1"
  "py_truediv (2 ^ 53 + 1) 1 = Inr (2 ^ 53)"
  "py_truediv (2 ^ 53 + 3) 1 = Inr (2 ^ 53 + 4)"
  "py_truediv (2 ^ 1024 - 2 ^ 970) 1 = Inl OverflowError"
  "py_truediv 1 0 = Inl ZeroDivisionError"
  by code_simp+

text \<open>A quotient of counts lies between 0 and 1, so its division raises nothing.\<close>

lemma py_truediv_ratio:
  assumes "0 \<le> a" "a \<le> b" "0 < b"
  shows "\<exists>r. py_truediv a b = Inr r"
proof -
  have "(2 :: int) \<le> 2 ^ 1024 - 2 ^ 970"
    by simp
  then have "b * 2 \<le> b * (2 ^ 1024 - 2 ^ 970)"
    using assms(3) by (intro mult_left_mono) simp_all
  then have "a < b * (2 ^ 1024 - 2 ^ 970)"
    using assms by linarith
  then show ?thesis
    using assms by (simp add: py_truediv_def)
qed

lemma recall_of_counts:
  assumes "0 \<le> tp" "0 \<le> fn"
  shows "\<exists>r. recall_of tp fn = Inr r"
  using assms py_truediv_ratio [of tp "tp + fn"] by (simp add: recall_of_def)

lemma threshold_exists:
  assumes "k < 10"
  shows "\<exists>t. py_truediv (int k + 1) 10 = Inr t"
  using assms by (intro py_truediv_ratio) simp_all

lemma recalls_exist:
  assumes "list_all (\<lambda>x. 0 \<le> x) tp_list" "list_all (\<lambda>x. 0 \<le> x) fn_list"
  shows "\<exists>recalls. list_all2 (\<lambda>p r. recall_of (fst p) (snd p) = Inr r) (zip tp_list fn_list) recalls"
  using assms
proof (induction tp_list arbitrary: fn_list)
  case Nil
  then show ?case by simp
next
  case (Cons tp tps)
  show ?case
  proof (cases fn_list)
    case Nil
    then show ?thesis by simp
  next
    case (Cons fn fns)
    with Cons.prems have "0 \<le> tp" "0 \<le> fn" "list_all (\<lambda>x. 0 \<le> x) tps" "list_all (\<lambda>x. 0 \<le> x) fns"
      by simp_all
    with Cons.IH [of fns] recall_of_counts [of tp fn] obtain r rs where
      "recall_of tp fn = Inr r"
      "list_all2 (\<lambda>p r. recall_of (fst p) (snd p) = Inr r) (zip tps fns) rs"
      by blast
    then have "list_all2 (\<lambda>p r. recall_of (fst p) (snd p) = Inr r) (zip (tp # tps) (fn # fns)) (r # rs)"
      by simp
    with Cons show ?thesis by blast
  qed
qed

text \<open>One step of the loop keeps the invariant, in each of its four cases.\<close>

lemma scan_inv_keep_None:
  assumes "scan_inv rt seen (None, br)" "\<not> float_ge r rt"
  shows "scan_inv rt (seen @ [r]) (None, br)"
  using assms by (auto simp add: scan_inv_def nth_append less_Suc_eq)

lemma scan_inv_first:
  assumes "scan_inv rt seen (None, br)" "float_ge r rt"
    "py_truediv (int (length seen) + 1) 10 = Inr t"
  shows "scan_inv rt (seen @ [r]) (Some t, r)"
  unfolding scan_inv_def
  using assms
  by (auto simp add: scan_inv_def nth_append less_Suc_eq intro!: exI [of _ "length seen"])

lemma scan_inv_better:
  assumes "scan_inv rt seen (Some t0, br)" "float_ge r rt" "br < r"
    "py_truediv (int (length seen) + 1) 10 = Inr t"
  shows "scan_inv rt (seen @ [r]) (Some t, r)"
proof -
  from assms(1) obtain k where k: "k < length seen" "br = seen ! k"
    and top: "\<forall>j<length seen. float_ge (seen ! j) rt \<longrightarrow> seen ! j \<le> seen ! k"
    by (auto simp add: scan_inv_def)
  have below: "seen ! j < r" if "j < length seen" "float_ge (seen ! j) rt" for j
    using that top k(2) assms(3) by (metis le_less_trans)
  show ?thesis
    unfolding scan_inv_def
    using assms(2,4) below
    by (auto simp add: nth_append less_Suc_eq less_imp_le intro!: exI [of _ "length seen"])
qed

lemma scan_inv_keep_Some:
  assumes "scan_inv rt seen (Some t, br)" "\<not> (float_ge r rt \<and> br < r)"
  shows "scan_inv rt (seen @ [r]) (Some t, br)"
proof -
  from assms(1) obtain k where k: "k < length seen" "py_truediv (int k + 1) 10 = Inr t"
      "br = seen ! k" "float_ge (seen ! k) rt"
    and top: "\<forall>j<length seen. float_ge (seen ! j) rt \<longrightarrow> seen ! j \<le> seen ! k"
    and first: "\<forall>j<k. float_ge (seen ! j) rt \<longrightarrow> seen ! j < seen ! k"
    by (auto simp add: scan_inv_def)
  have new: "float_ge r rt \<longrightarrow> r \<le> seen ! k"
    using assms(2) k(3) by auto
  show ?thesis
    unfolding scan_inv_def
    using k top first new
    by (auto simp add: nth_append less_Suc_eq intro!: exI [of _ k])
qed

lemma scan_inv_step:
  assumes "scan_inv rt seen (bt, br)" "py_truediv (int (length seen) + 1) 10 = Inr t"
  shows "scan_inv rt (seen @ [r])
           (if float_ge r rt \<and> (br < r \<or> bt = None) then (Some t, r) else (bt, br))"
proof (cases bt)
  case None
  with assms show ?thesis
    by (auto intro: scan_inv_first scan_inv_keep_None)
next
  case (Some t0)
  with assms show ?thesis
    by (auto intro: scan_inv_better scan_inv_keep_Some)
qed

lemma scan_thresholds_inv:
  assumes "scan_inv rt seen best" "i = int (length seen)"
    "list_all2 (\<lambda>p r. recall_of (fst p) (snd p) = Inr r) rest recalls"
    "length seen + length rest \<le> 10"
  shows "\<exists>best'. scan_thresholds rt i rest best = Inr best'
           \<and> scan_inv rt (seen @ recalls) best'"
  using assms
proof (induction rest arbitrary: seen best i recalls)
  case Nil
  then show ?case by (cases best) simp
next
  case (Cons p rest)
  obtain tp fn where p: "p = (tp, fn)" by (cases p)
  obtain bt br where best: "best = (bt, br)" by (cases best)
  from Cons.prems(3) obtain r rs where recalls: "recalls = r # rs"
    and r: "recall_of tp fn = Inr r"
    and rs: "list_all2 (\<lambda>p r. recall_of (fst p) (snd p) = Inr r) rest rs"
    by (auto simp add: list_all2_Cons1 p)
  from Cons.prems(4) have "length seen < 10" by simp
  then obtain t where t: "py_truediv (int (length seen) + 1) 10 = Inr t"
    using threshold_exists by blast
  let ?next = "if float_ge r rt \<and> (br < r \<or> bt = None) then (Some t, r) else (bt, br)"
  have inv: "scan_inv rt (seen @ [r]) ?next"
    using Cons.prems(1) t unfolding best by (rule scan_inv_step)
  have i: "i + 1 = int (length (seen @ [r]))"
    using Cons.prems(2) by simp
  have len: "length (seen @ [r]) + length rest \<le> 10"
    using Cons.prems(4) by simp
  from Cons.IH [OF inv i rs len] obtain best' where
    "scan_thresholds rt (i + 1) rest ?next = Inr best'" "scan_inv rt ((seen @ [r]) @ rs) best'"
    by blast
  moreover have "scan_thresholds rt i (p # rest) best = scan_thresholds rt (i + 1) rest ?next"
    using t r Cons.prems(2) by (auto simp add: p best)
  ultimately show ?case
    by (simp add: recalls)
qed

text \<open>
  Claim C9 as it is stated fails on the code. With the true positives
  \<open>[10 ^ 309, 0, \<dots>]\<close> and the false negatives \<open>[1 - 10 ^ 309, 1, \<dots>]\<close>, two lists of nine
  integers, the first division raises \<^verbatim>\<open>OverflowError\<close>: the function raises an exception
  that is not \<open>InvalidDataException\<close> and returns nothing. With the counts
  \<open>[10 ^ 17, 1, 0, \<dots>]\<close> and \<open>[1, 0, 1, \<dots>]\<close> and the target 0.9 the function returns the
  first threshold 0.1, although the quotient \<open>tp / (tp + fn)\<close> of the second threshold,
  which is 1, is higher than that of the first, \<open>10 ^ 17 / (10 ^ 17 + 1)\<close>: as floats both
  are 1.
\<close>

theorem find_best_recall_threshold_counterexample:
  "length [10 ^ 309, 0, 0, 0, 0, 0, 0, 0, 0 :: int] = 9
   \<and> length [1 - 10 ^ 309, 1, 1, 1, 1, 1, 1, 1, 1 :: int] = 9
   \<and> find_best_recall_threshold [10 ^ 309, 0, 0, 0, 0, 0, 0, 0, 0]
        [1 - 10 ^ 309, 1, 1, 1, 1, 1, 1, 1, 1] (Finite (8106479329266893 / 9007199254740992))
       = Inl OverflowError
   \<and> find_best_recall_threshold [10 ^ 17, 1, 0, 0, 0, 0, 0, 0, 0]
        [1, 0, 1, 1, 1, 1, 1, 1, 1] (Finite (8106479329266893 / 9007199254740992))
       = Inr (Some (3602879701896397 / 36028797018963968))
   \<and> py_truediv 1 10 = Inr (3602879701896397 / 36028797018963968)
   \<and> (8106479329266893 / 9007199254740992 :: rat) \<le> 10 ^ 17 / (10 ^ 17 + 1)
   \<and> (10 ^ 17 / (10 ^ 17 + 1) :: rat) < 1 / (1 + 0)"
proof -
  have "find_best_recall_threshold [10 ^ 309, 0, 0, 0, 0, 0, 0, 0, 0]
        [1 - 10 ^ 309, 1, 1, 1, 1, 1, 1, 1, 1] (Finite (8106479329266893 / 9007199254740992))
       = Inl OverflowError"
    by code_simp
  moreover have "find_best_recall_threshold [10 ^ 17, 1, 0, 0, 0, 0, 0, 0, 0]
        [1, 0, 1, 1, 1, 1, 1, 1, 1] (Finite (8106479329266893 / 9007199254740992))
       = Inr (Some (3602879701896397 / 36028797018963968))"
    by code_simp
  moreover have "py_truediv 1 10 = Inr (3602879701896397 / 36028797018963968)"
    by code_simp
  moreover have "(8106479329266893 / 9007199254740992 :: rat) \<le> 10 ^ 17 / (10 ^ 17 + 1)"
    by (simp add: field_simps)
  moreover have "(10 ^ 17 / (10 ^ 17 + 1) :: rat) < 1 / (1 + 0)"
    by simp
  ultimately show ?thesis by simp
qed

text \<open>
  Claim C9, amended. \<open>find_best_recall_threshold\<close> raises \<open>InvalidDataException\<close> exactly when
  the list of true positives has not 9 entries or the two lists differ in length. For two
  lists of 9 counts (integers that are not negative) every recall has a value, the float
  that \<^verbatim>\<open>tp / (tp + fn)\<close> gives, or 0 when \<open>tp + fn\<close> is 0, and the function returns
  \<open>None\<close> or one of the nine floats \<open>(k + 1) / 10\<close>: \<open>None\<close> exactly when no recall reaches
  the target, and otherwise the threshold of the first index whose recall is the highest of
  the recalls that reach the target.
\<close>

theorem find_best_recall_threshold_result:
  "(find_best_recall_threshold tp_list fn_list recall_threshold = Inl InvalidDataException
      \<longleftrightarrow> length tp_list \<noteq> 9 \<or> length fn_list \<noteq> length tp_list)
   \<and> (length tp_list = 9 \<and> length fn_list = 9
       \<and> list_all (\<lambda>tp. 0 \<le> tp) tp_list \<and> list_all (\<lambda>fn. 0 \<le> fn) fn_list \<longrightarrow>
        (\<exists>recalls best.
           length recalls = 9
           \<and> (\<forall>j<9. recall_of (tp_list ! j) (fn_list ! j) = Inr (recalls ! j))
           \<and> find_best_recall_threshold tp_list fn_list recall_threshold = Inr best
           \<and> (best = None \<longleftrightarrow> (\<forall>j<9. \<not> float_ge (recalls ! j) recall_threshold))
           \<and> (\<forall>t. best = Some t \<longrightarrow>
                (\<exists>k<9. py_truediv (int k + 1) 10 = Inr t
                   \<and> float_ge (recalls ! k) recall_threshold
                   \<and> (\<forall>j<9. float_ge (recalls ! j) recall_threshold
                          \<longrightarrow> recalls ! j \<le> recalls ! k)
                   \<and> (\<forall>j<k. float_ge (recalls ! j) recall_threshold
                          \<longrightarrow> recalls ! j < recalls ! k)))))"
proof (intro conjI impI)
  have no_other: "scan_thresholds recall_threshold 0 (zip tp_list fn_list) (None, - 1)
      \<noteq> Inl InvalidDataException"
  proof -
    have "scan_thresholds rt i ps best \<noteq> Inl InvalidDataException" for rt i ps best
    proof (induction ps arbitrary: i best)
      case Nil
      then show ?case by (cases best) simp
    next
      case (Cons p ps)
      obtain tp fn where p: "p = (tp, fn)" by (cases p)
      obtain bt br where best: "best = (bt, br)" by (cases best)
      have "py_truediv a b \<noteq> Inl InvalidDataException" for a b
        by (simp add: py_truediv_def)
      moreover from this have "recall_of a b \<noteq> Inl InvalidDataException" for a b
        by (simp add: recall_of_def)
      ultimately show ?case
        using Cons.IH by (auto simp add: p best split: sum.splits)
    qed
    then show ?thesis .
  qed
  then show "find_best_recall_threshold tp_list fn_list recall_threshold = Inl InvalidDataException
      \<longleftrightarrow> length tp_list \<noteq> 9 \<or> length fn_list \<noteq> length tp_list"
    by (auto simp add: find_best_recall_threshold_def split: sum.splits)
next
  assume hyp: "length tp_list = 9 \<and> length fn_list = 9
       \<and> list_all (\<lambda>tp. 0 \<le> tp) tp_list \<and> list_all (\<lambda>fn. 0 \<le> fn) fn_list"
  then obtain recalls where
    recalls: "list_all2 (\<lambda>p r. recall_of (fst p) (snd p) = Inr r) (zip tp_list fn_list) recalls"
    using recalls_exist by blast
  then have len: "length recalls = 9"
    using hyp by (auto dest: list_all2_lengthD)
  have nth: "recall_of (tp_list ! j) (fn_list ! j) = Inr (recalls ! j)" if "j < 9" for j
    using list_all2_nthD [OF recalls, of j] that hyp by simp
  have "scan_inv recall_threshold [] (None, - 1)"
    by (simp add: scan_inv_def)
  from scan_thresholds_inv [OF this _ recalls] hyp obtain best where
    scan: "scan_thresholds recall_threshold 0 (zip tp_list fn_list) (None, - 1) = Inr best"
    and inv: "scan_inv recall_threshold recalls best"
    by auto
  have result: "find_best_recall_threshold tp_list fn_list recall_threshold = Inr (fst best)"
    using hyp scan by (simp add: find_best_recall_threshold_def split_beta)
  have none: "fst best = None \<longleftrightarrow> (\<forall>j<9. \<not> float_ge (recalls ! j) recall_threshold)"
    using inv len by (cases "fst best") (auto simp add: scan_inv_def)
  have some: "\<exists>k<9. py_truediv (int k + 1) 10 = Inr t
         \<and> float_ge (recalls ! k) recall_threshold
         \<and> (\<forall>j<9. float_ge (recalls ! j) recall_threshold \<longrightarrow> recalls ! j \<le> recalls ! k)
         \<and> (\<forall>j<k. float_ge (recalls ! j) recall_threshold \<longrightarrow> recalls ! j < recalls ! k)"
    if "fst best = Some t" for t
    using inv len that by (auto simp add: scan_inv_def)
  from len nth result none some
  show "\<exists>recalls best.
           length recalls = 9
           \<and> (\<forall>j<9. recall_of (tp_list ! j) (fn_list ! j) = Inr (recalls ! j))
           \<and> find_best_recall_threshold tp_list fn_list recall_threshold = Inr best
           \<and> (best = None \<longleftrightarrow> (\<forall>j<9. \<not> float_ge (recalls ! j) recall_threshold))
           \<and> (\<forall>t. best = Some t \<longrightarrow>
                (\<exists>k<9. py_truediv (int k + 1) 10 = Inr t
                   \<and> float_ge (recalls ! k) recall_threshold
                   \<and> (\<forall>j<9. float_ge (recalls ! j) recall_threshold
                          \<longrightarrow> recalls ! j \<le> recalls ! k)
                   \<and> (\<forall>j<k. float_ge (recalls ! j) recall_threshold
                          \<longrightarrow> recalls ! j < recalls ! k)))"
    by (intro exI [of _ recalls] exI [of _ "fst best"]) blast
qed

text \<open>
  The data of \<^verbatim>\<open>test_expect_real\<close> with the float 0.9 as target: the fourth threshold, the
  float 0.4, has the highest recall, the float of \<open>70 / 71\<close>. The two lists of eight entries
  of \<^verbatim>\<open>test_bad_data_length\<close> raise \<open>InvalidDataException\<close>.
\<close>

theorem find_best_recall_threshold_result_witness:
  "length [100, 95, 90, 70, 60, 50, 40, 30, 20 :: int] = 9
   \<and> length [4, 3, 2, 1, 2, 4, 5, 6, 7 :: int] = 9
   \<and> list_all (\<lambda>tp. 0 \<le> tp) [100, 95, 90, 70, 60, 50, 40, 30, 20 :: int]
   \<and> list_all (\<lambda>fn. 0 \<le> fn) [4, 3, 2, 1, 2, 4, 5, 6, 7 :: int]
   \<and> find_best_recall_threshold [100, 95, 90, 70, 60, 50, 40, 30, 20]
        [4, 3, 2, 1, 2, 4, 5, 6, 7] (Finite (8106479329266893 / 9007199254740992))
       = Inr (Some (3602879701896397 / 9007199254740992))
   \<and> py_truediv 4 10 = Inr (3602879701896397 / 9007199254740992)
   \<and> recall_of 70 1 = Inr (2220084323351653 / 2251799813685248)
   \<and> find_best_recall_threshold [90, 80, 70, 60, 50, 40, 30, 20]
        [2, 3, 4, 5, 6, 7, 8, 9] (Finite (8106479329266893 / 9007199254740992))
       = Inl InvalidDataException"
proof -
  let ?tp = "[100, 95, 90, 70, 60, 50, 40, 30, 20 :: int]"
  let ?fn = "[4, 3, 2, 1, 2, 4, 5, 6, 7 :: int]"
  let ?target = "Finite (8106479329266893 / 9007199254740992)"
  have counts: "length ?tp = 9 \<and> length ?fn = 9
      \<and> list_all (\<lambda>tp. 0 \<le> tp) ?tp \<and> list_all (\<lambda>fn. 0 \<le> fn) ?fn"
    by simp
  with find_best_recall_threshold_result [of ?tp ?fn ?target]
  obtain best where "find_best_recall_threshold ?tp ?fn ?target = Inr best"
    by blast
  moreover have "find_best_recall_threshold ?tp ?fn ?target
      = Inr (Some (3602879701896397 / 9007199254740992))"
    by code_simp
  moreover have "py_truediv 4 10 = Inr (3602879701896397 / 9007199254740992)"
    by code_simp
  moreover have "recall_of 70 1 = Inr (2220084323351653 / 2251799813685248)"
    by code_simp
  moreover have "find_best_recall_threshold [90, 80, 70, 60, 50, 40, 30, 20]
        [2, 3, 4, 5, 6, 7, 8, 9] ?target = Inl InvalidDataException"
    using find_best_recall_threshold_result
            [of "[90, 80, 70, 60, 50, 40, 30, 20]" "[2, 3, 4, 5, 6, 7, 8, 9]" ?target]
    by simp
  ultimately show ?thesis
    using counts by simp
qed

end
